theory Spec2Isabelle
  imports Main
begin

section \<open>JavaScript values and string primitives\<close>

text \<open>
  The module under study is \<^verbatim>\<open>src/deep-linking/DeepLinkUtils.js\<close>. It uses a handful of
  primitives of the JavaScript runtime; each is given here as a total function on
  \<open>string\<close>, a list of bytes. A JavaScript string is represented by its UTF-8 encoding:
  an ASCII character is one byte, any other character two to four. The separators that
  the code looks for (\<open>?\<close>, \<open>&\<close>, \<open>=\<close>, \<open>+\<close>, \<open>%\<close>, signs, digits) are ASCII and never occur
  inside the encoding of another character, so cutting and comparing bytes is cutting
  and comparing characters. The case conversions map the ASCII letters and leave every
  other byte alone, where the runtime also maps the letters beyond ASCII.

  \<open>undefined\<close> and \<open>null\<close> are \<open>None\<close>; a property that is missing and a property that
  holds \<open>undefined\<close> are not told apart. Calls of \<^verbatim>\<open>console.log\<close> are left out.
\<close>

text \<open>
  A JavaScript number as \<^verbatim>\<open>parseInt\<close> can return it: \<open>NaN\<close>, an integer that a double holds
  exactly (\<open>Num\<close>; \<open>-0\<close> and \<open>+0\<close> are both \<open>Num 0\<close>), or the double nearest to an integer of
  magnitude above \<open>2 ^ 53\<close> (\<open>Rounded\<close>, possibly an infinity; its value is not computed).
\<close>

datatype number = NaN | Num int | Rounded int

definition isNaN :: "number \<Rightarrow> bool" where
  "isNaN x = (x = NaN)"

text \<open>Truthiness of a number: \<open>NaN\<close> and zero are falsy.\<close>

definition truthy_number :: "number \<Rightarrow> bool" where
  "truthy_number x = (x \<noteq> NaN \<and> x \<noteq> Num 0)"

text \<open>Truthiness of a string that may be \<open>undefined\<close>: the empty string is falsy.\<close>

definition truthy_string :: "string option \<Rightarrow> bool" where
  "truthy_string x = (case x of None \<Rightarrow> False | Some s \<Rightarrow> s \<noteq> [])"

text \<open>The idiom \<^verbatim>\<open>x || undefined\<close> on a string that may be \<open>null\<close>.\<close>

definition or_undefined :: "string option \<Rightarrow> string option" where
  "or_undefined x = (if truthy_string x then x else None)"

text \<open>\<^verbatim>\<open>String.prototype.startsWith\<close> and \<^verbatim>\<open>String.prototype.slice\<close> with one argument.\<close>

definition startsWith :: "string \<Rightarrow> string \<Rightarrow> bool" where
  "startsWith s p = (take (length p) s = p)"

definition slice :: "string \<Rightarrow> nat \<Rightarrow> string" where
  "slice s n = drop n s"

text \<open>
  \<^verbatim>\<open>String.prototype.split\<close> with a separator of one character: the string is cut at
  every occurrence of the separator, and the result always has at least one segment.
\<close>

fun split_on :: "char \<Rightarrow> string \<Rightarrow> string list" where
  "split_on sep [] = [[]]"
| "split_on sep (c # cs) =
     (if c = sep then [] # split_on sep cs
      else (case split_on sep cs of s # ss \<Rightarrow> (c # s) # ss | [] \<Rightarrow> [[c]]))"

text \<open>Reading an array element that may be missing (\<open>undefined\<close> out of range).\<close>

definition element :: "'a list \<Rightarrow> nat \<Rightarrow> 'a option" where
  "element xs i = (if i < length xs then Some (xs ! i) else None)"

text \<open>\<^verbatim>\<open>toLowerCase\<close> and \<^verbatim>\<open>toUpperCase\<close>, on the ASCII letters.\<close>

definition upper_letters :: string where
  "upper_letters = ''ABCDEFGHIJKLMNOPQRSTUVWXYZ''"

definition lower_letters :: string where
  "lower_letters = ''abcdefghijklmnopqrstuvwxyz''"

definition toLowerCase_char :: "char \<Rightarrow> char" where
  "toLowerCase_char c =
     (case map_of (zip upper_letters lower_letters) c of Some l \<Rightarrow> l | None \<Rightarrow> c)"

definition toUpperCase_char :: "char \<Rightarrow> char" where
  "toUpperCase_char c =
     (case map_of (zip lower_letters upper_letters) c of Some u \<Rightarrow> u | None \<Rightarrow> c)"

definition toLowerCase :: "string \<Rightarrow> string" where
  "toLowerCase s = map toLowerCase_char s"

definition toUpperCase :: "string \<Rightarrow> string" where
  "toUpperCase s = map toUpperCase_char s"

subsection \<open>\<^verbatim>\<open>parseInt(s, 10)\<close>\<close>

text \<open>
  Leading white space is dropped, one sign is read, then the longest run of decimal digits;
  whatever follows the digits is ignored. No digit at all gives \<open>NaN\<close>.
\<close>

text \<open>
  The white space that \<^verbatim>\<open>parseInt\<close> skips, each character in UTF-8: tab, line feed,
  vertical tab, form feed, carriage return, space, U+00A0, U+1680, U+2000 to U+200A,
  U+2028, U+2029, U+202F, U+205F, U+3000 and U+FEFF.
\<close>

definition StrWhiteSpaceChar :: "string list" where
  "StrWhiteSpaceChar =
     [[CHR 0x09], [CHR 0x0A], [CHR 0x0B], [CHR 0x0C], [CHR 0x0D], [CHR 0x20],
      [CHR 0xC2, CHR 0xA0],
      [CHR 0xE1, CHR 0x9A, CHR 0x80],
      [CHR 0xE2, CHR 0x80, CHR 0x80], [CHR 0xE2, CHR 0x80, CHR 0x81],
      [CHR 0xE2, CHR 0x80, CHR 0x82], [CHR 0xE2, CHR 0x80, CHR 0x83],
      [CHR 0xE2, CHR 0x80, CHR 0x84], [CHR 0xE2, CHR 0x80, CHR 0x85],
      [CHR 0xE2, CHR 0x80, CHR 0x86], [CHR 0xE2, CHR 0x80, CHR 0x87],
      [CHR 0xE2, CHR 0x80, CHR 0x88], [CHR 0xE2, CHR 0x80, CHR 0x89],
      [CHR 0xE2, CHR 0x80, CHR 0x8A],
      [CHR 0xE2, CHR 0x80, CHR 0xA8], [CHR 0xE2, CHR 0x80, CHR 0xA9],
      [CHR 0xE2, CHR 0x80, CHR 0xAF],
      [CHR 0xE2, CHR 0x81, CHR 0x9F],
      [CHR 0xE3, CHR 0x80, CHR 0x80],
      [CHR 0xEF, CHR 0xBB, CHR 0xBF]]"

text \<open>Dropping the leading white space, one character after the other.\<close>

function trimStart :: "string \<Rightarrow> string" where
  "trimStart s =
     (case find (\<lambda>w. startsWith s w) StrWhiteSpaceChar of
        None \<Rightarrow> s
      | Some w \<Rightarrow> trimStart (slice s (length w)))"
  by pat_completeness auto
termination
proof (relation "measure length")
  show "wf (measure length)"
    by simp
next
  fix s w
  assume "find (\<lambda>w. startsWith s w) StrWhiteSpaceChar = Some w"
  then have w: "w \<in> set StrWhiteSpaceChar" and p: "startsWith s w"
    by (auto simp add: find_Some_iff)
  have "[] \<notin> set StrWhiteSpaceChar"
    by (simp add: StrWhiteSpaceChar_def)
  with w have "w \<noteq> []"
    by blast
  moreover from p have "length (take (length w) s) = length w"
    by (simp add: startsWith_def)
  then have "length w \<le> length s"
    by simp
  ultimately have "0 < length w" and "length w \<le> length s"
    by simp_all
  then have "length s - length w < length s"
    by arith
  then show "(slice s (length w), s) \<in> measure length"
    by (simp add: slice_def)
qed

declare trimStart.simps [simp del]

definition isDigit :: "char \<Rightarrow> bool" where
  "isDigit c = (48 \<le> (of_char c :: nat) \<and> (of_char c :: nat) \<le> 57)"

definition digitValue :: "char \<Rightarrow> nat" where
  "digitValue c = of_char c - 48"

definition digitsValue :: "string \<Rightarrow> nat" where
  "digitsValue ds = foldl (\<lambda>acc d. 10 * acc + digitValue d) 0 ds"

definition toNumber :: "int \<Rightarrow> number" where
  "toNumber i = (if \<bar>i\<bar> \<le> 2 ^ 53 then Num i else Rounded i)"

definition parseInt10 :: "string \<Rightarrow> number" where
  "parseInt10 inputString =
     (let S = trimStart inputString;
          sign = (case S of c # _ \<Rightarrow> if c = CHR ''-'' then - 1 else 1 | [] \<Rightarrow> (1 :: int));
          S' = (case S of c # r \<Rightarrow> if c = CHR ''+'' \<or> c = CHR ''-'' then r else S | [] \<Rightarrow> S);
          Z = takeWhile isDigit S'
      in if Z = [] then NaN else toNumber (sign * int (digitsValue Z)))"

text \<open>Decimal rendering of a natural number, as a template literal prints it.\<close>

function decimal :: "nat \<Rightarrow> string" where
  "decimal n =
     (if n < 10 then [''0123456789'' ! n]
      else decimal (n div 10) @ [''0123456789'' ! (n mod 10)])"
  by pat_completeness auto
termination
  by (relation "measure id") auto

declare decimal.simps [simp del]

subsection \<open>Property lookup on an object literal\<close>

text \<open>
  \<^verbatim>\<open>obj[key]\<close> on an object literal finds the literal's own properties first and then the
  properties every object inherits from \<^verbatim>\<open>Object.prototype\<close>, which are functions or
  objects and therefore truthy.
\<close>

datatype jsvalue = Undefined | Str string | Inherited string

definition Object_prototype_keys :: "string list" where
  "Object_prototype_keys =
     [''constructor'', ''__defineGetter__'', ''__defineSetter__'', ''hasOwnProperty'',
      ''__lookupGetter__'', ''__lookupSetter__'', ''isPrototypeOf'', ''propertyIsEnumerable'',
      ''toString'', ''valueOf'', ''__proto__'', ''toLocaleString'']"

definition property :: "(string \<times> string) list \<Rightarrow> string \<Rightarrow> jsvalue" where
  "property obj key =
     (case map_of obj key of
        Some v \<Rightarrow> Str v
      | None \<Rightarrow> if key \<in> set Object_prototype_keys then Inherited key else Undefined)"

fun truthy :: "jsvalue \<Rightarrow> bool" where
  "truthy Undefined = False"
| "truthy (Str s) = (s \<noteq> [])"
| "truthy (Inherited k) = True"

subsection \<open>\<^verbatim>\<open>URLSearchParams\<close>\<close>

text \<open>
  The constructor on a string follows the URL standard's parser for
  \<^verbatim>\<open>application/x-www-form-urlencoded\<close>: one leading \<open>?\<close> is dropped, the rest is cut at
  every \<open>&\<close>, empty pieces are skipped, each piece is cut at its first \<open>=\<close>, every \<open>+\<close>
  becomes a space, percent escapes are decoded to bytes, and the bytes are decoded as UTF-8.
  \<^verbatim>\<open>get\<close> returns the value of the first pair with the given name, or \<open>null\<close>.
\<close>

definition isHexDigit :: "char \<Rightarrow> bool" where
  "isHexDigit c =
     (let n = (of_char c :: nat)
      in (48 \<le> n \<and> n \<le> 57) \<or> (65 \<le> n \<and> n \<le> 70) \<or> (97 \<le> n \<and> n \<le> 102))"

definition hexValue :: "char \<Rightarrow> nat" where
  "hexValue c =
     (let n = (of_char c :: nat)
      in if n \<le> 57 then n - 48 else if n \<le> 70 then n - 55 else n - 87)"

text \<open>The byte with the given high and low hexadecimal digits.\<close>

definition byte_of_hex :: "char \<Rightarrow> char \<Rightarrow> char" where
  "byte_of_hex a b =
     (let hi = hexValue a; lo = hexValue b
      in Char (odd lo) (odd (lo div 2)) (odd (lo div 4)) (odd (lo div 8))
              (odd hi) (odd (hi div 2)) (odd (hi div 4)) (odd (hi div 8)))"

fun percent_decode :: "string \<Rightarrow> string" where
  "percent_decode [] = []"
| "percent_decode (c # cs) =
     (if c = CHR ''%'' then
        (case cs of
           a # b # rest \<Rightarrow>
             if isHexDigit a \<and> isHexDigit b
             then byte_of_hex a b # percent_decode rest
             else c # percent_decode cs
         | _ \<Rightarrow> c # percent_decode cs)
      else c # percent_decode cs)"

text \<open>
  The decoder of UTF-8 that the URL standard applies to the decoded bytes, with the
  result again in UTF-8: a well-formed sequence is kept, and every error gives U+FFFD.
  The state is the bytes of the sequence seen so far, the number of bytes it still needs,
  and the range allowed for the next byte; a byte that cannot continue a sequence ends it
  with an error and is read again as the start of the next character.
\<close>

definition REPLACEMENT_CHARACTER :: string where
  "REPLACEMENT_CHARACTER = [CHR 0xEF, CHR 0xBF, CHR 0xBD]"

function utf8_decode_from :: "string \<Rightarrow> nat \<Rightarrow> nat \<Rightarrow> nat \<Rightarrow> string \<Rightarrow> string" where
  "utf8_decode_from seen needed lower upper [] =
     (if needed = 0 then [] else REPLACEMENT_CHARACTER)"
| "utf8_decode_from seen needed lower upper (b # bs) =
     (if needed = 0 then
        (if (of_char b :: nat) \<le> 0x7F then b # utf8_decode_from [] 0 0x80 0xBF bs
         else if 0xC2 \<le> (of_char b :: nat) \<and> (of_char b :: nat) \<le> 0xDF
           then utf8_decode_from [b] 1 0x80 0xBF bs
         else if 0xE0 \<le> (of_char b :: nat) \<and> (of_char b :: nat) \<le> 0xEF
           then utf8_decode_from [b] 2
                  (if (of_char b :: nat) = 0xE0 then 0xA0 else 0x80)
                  (if (of_char b :: nat) = 0xED then 0x9F else 0xBF) bs
         else if 0xF0 \<le> (of_char b :: nat) \<and> (of_char b :: nat) \<le> 0xF4
           then utf8_decode_from [b] 3
                  (if (of_char b :: nat) = 0xF0 then 0x90 else 0x80)
                  (if (of_char b :: nat) = 0xF4 then 0x8F else 0xBF) bs
         else REPLACEMENT_CHARACTER @ utf8_decode_from [] 0 0x80 0xBF bs)
      else if \<not> (lower \<le> (of_char b :: nat) \<and> (of_char b :: nat) \<le> upper)
        then REPLACEMENT_CHARACTER @ utf8_decode_from [] 0 0x80 0xBF (b # bs)
      else if needed = 1 then seen @ [b] @ utf8_decode_from [] 0 0x80 0xBF bs
      else utf8_decode_from (seen @ [b]) (needed - 1) 0x80 0xBF bs)"
  by pat_completeness auto
termination
  by (relation "measure (\<lambda>(seen, needed, lower, upper, bs).
        2 * length bs + (if needed = 0 then 0 else 1))") auto

definition utf8_decode :: "string \<Rightarrow> string" where
  "utf8_decode bytes = utf8_decode_from [] 0 0x80 0xBF bytes"

definition plus_to_space :: "string \<Rightarrow> string" where
  "plus_to_space s = map (\<lambda>c. if c = CHR ''+'' then CHR '' '' else c) s"

definition name_value :: "string \<Rightarrow> string \<times> string" where
  "name_value piece =
     (let name = takeWhile (\<lambda>c. c \<noteq> CHR ''='') piece;
          val = drop (length name + 1) piece
      in (utf8_decode (percent_decode (plus_to_space name)),
          utf8_decode (percent_decode (plus_to_space val))))"

definition URLSearchParams :: "string \<Rightarrow> (string \<times> string) list" where
  "URLSearchParams init =
     (let query = (case init of c # r \<Rightarrow> if c = CHR ''?'' then r else init | [] \<Rightarrow> init)
      in map name_value (filter (\<lambda>piece. piece \<noteq> []) (split_on CHR ''&'' query)))"

definition get :: "(string \<times> string) list \<Rightarrow> string \<Rightarrow> string option" where
  "get params name = map_of params name"

section \<open>The type registry\<close>

definition URL_SCHEME :: string where
  "URL_SCHEME = ''com.ham2k.polo://''"

definition TYPE_TO_ACTIVATION :: "(string \<times> string) list" where
  "TYPE_TO_ACTIVATION =
     [(''sota'', ''sotaActivation''),
      (''pota'', ''potaActivation''),
      (''wwff'', ''wwffActivation''),
      (''gma'', ''gmaActivation''),
      (''wca'', ''wcaActivation''),
      (''zlota'', ''zlotaActivation'')]"

definition TYPE_TO_HUNTING :: "(string \<times> string) list" where
  "TYPE_TO_HUNTING =
     [(''sota'', ''sota''),
      (''pota'', ''pota''),
      (''wwff'', ''wwff''),
      (''gma'', ''gma''),
      (''wca'', ''wca''),
      (''zlota'', ''zlota'')]"

section \<open>\<^verbatim>\<open>parseDeepLinkURL\<close>\<close>

record ParsedLinkParams =
  myRef :: "string option"
  mySig :: "string option"
  theirRef :: "string option"
  theirSig :: "string option"
  freq :: "number option"
  mode :: "string option"
  time :: "number option"
  myCall :: "string option"
  theirCall :: "string option"

definition parseFrequency :: "string option \<Rightarrow> number option" where
  "parseFrequency freqStr =
     (if \<not> truthy_string freqStr then None
      else (let hz = parseInt10 (the freqStr) in if isNaN hz then None else Some hz))"

text \<open>
  Lines 49 to 85 of the source: what the function does with the decoded parameters.
  \<open>None\<close> is the result \<open>null\<close>.
\<close>

definition fromParams :: "(string \<times> string) list \<Rightarrow> ParsedLinkParams option" where
  "fromParams params =
     (let myRef' = or_undefined (get params ''myRef'');
          mySig' = or_undefined (map_option toLowerCase (get params ''mySig''));
          theirRef' = or_undefined (get params ''theirRef'');
          theirSig' = or_undefined (map_option toLowerCase (get params ''theirSig''));
          hasMyRef = (truthy_string myRef' \<and> truthy_string mySig');
          hasTheirRef = (truthy_string theirRef' \<and> truthy_string theirSig')
      in if \<not> hasMyRef \<and> \<not> hasTheirRef then None
         else if truthy_string mySig' \<and> \<not> truthy (property TYPE_TO_ACTIVATION (the mySig'))
           then None
         else if truthy_string theirSig' \<and> \<not> truthy (property TYPE_TO_ACTIVATION (the theirSig'))
           then None
         else Some \<lparr>
           myRef = myRef',
           mySig = mySig',
           theirRef = theirRef',
           theirSig = theirSig',
           freq = parseFrequency (get params ''freq''),
           mode = or_undefined (map_option toUpperCase (get params ''mode'')),
           time = (if truthy_string (get params ''time'')
                   then Some (parseInt10 (the (get params ''time''))) else None),
           myCall = or_undefined (map_option toUpperCase (get params ''myCall'')),
           theirCall = or_undefined (map_option toUpperCase (get params ''theirCall''))
         \<rparr>)"

text \<open>
  Lines 42 and 43: the prefix is cut off, the rest is split at every \<open>?\<close>, and the
  destructuring \<^verbatim>\<open>[, queryString]\<close> takes the second segment.
\<close>

definition queryString :: "string \<Rightarrow> string option" where
  "queryString url =
     (let urlPath = slice url (length URL_SCHEME)
      in element (split_on CHR ''?'' urlPath) 1)"

text \<open>
  A thrown exception is a value: a computation returns \<open>Inl e\<close> when it throws \<open>e\<close> and
  \<open>Inr v\<close> when it returns \<open>v\<close>. The decoder of query strings belongs to the platform and is
  a parameter, which may throw.
\<close>

datatype exn = Exception string

text \<open>The body of the \<^verbatim>\<open>try\<close> block.\<close>

definition parseDeepLinkURL_try ::
  "(string \<Rightarrow> exn + (string \<times> string) list) \<Rightarrow> string \<Rightarrow> exn + ParsedLinkParams option" where
  "parseDeepLinkURL_try decoder url =
     (if \<not> truthy_string (queryString url) then Inr None
      else (case decoder (the (queryString url)) of
              Inl e \<Rightarrow> Inl e
            | Inr params \<Rightarrow> Inr (fromParams params)))"

text \<open>The whole function: the test of the prefix, then the block with its \<^verbatim>\<open>catch\<close>.\<close>

definition parseDeepLinkURL_with ::
  "(string \<Rightarrow> exn + (string \<times> string) list) \<Rightarrow> string \<Rightarrow> exn + ParsedLinkParams option" where
  "parseDeepLinkURL_with decoder url =
     (if \<not> startsWith url URL_SCHEME then Inr None
      else (case parseDeepLinkURL_try decoder url of
              Inl e \<Rightarrow> Inr None
            | Inr result \<Rightarrow> Inr result))"

text \<open>The function on a platform whose decoder follows the URL standard.\<close>

definition parseDeepLinkURL :: "string \<Rightarrow> exn + ParsedLinkParams option" where
  "parseDeepLinkURL url = parseDeepLinkURL_with (\<lambda>q. Inr (URLSearchParams q)) url"

text \<open>
  The value a URL gives to a parameter, as the function reads it: \<open>None\<close> when the URL has
  no query string or the query string has no pair of that name.
\<close>

definition urlParam :: "string \<Rightarrow> string \<Rightarrow> string option" where
  "urlParam url name =
     (case queryString url of
        None \<Rightarrow> None
      | Some q \<Rightarrow> get (URLSearchParams q) name)"

section \<open>\<^verbatim>\<open>buildSuggestedQSO\<close>\<close>

text \<open>
  The suggested contact. \<^verbatim>\<open>bandForFrequency\<close> and \<^verbatim>\<open>modeForFrequency\<close> come from another
  package and are parameters, as is the instant that \<^verbatim>\<open>Date.now()\<close> reads. The argument
  is destructured, so only seven of the nine fields are read.
\<close>

record party =
  call :: "string option"

record reference =
  ref_type :: jsvalue
  ref_ref :: string

record suggestedQSO =
  qso_suggestedKey :: string
  qso_their :: party
  qso_our :: party
  qso_freq :: "number option"
  qso_band :: "string option"
  qso_mode :: "string option"
  qso_startAtMillis :: "number option"
  qso_refs :: "reference list option"

definition truthy_freq :: "number option \<Rightarrow> bool" where
  "truthy_freq x = (case x of None \<Rightarrow> False | Some n \<Rightarrow> truthy_number n)"

definition buildSuggestedQSO ::
  "(number \<Rightarrow> string option) \<Rightarrow> (number \<Rightarrow> string option) \<Rightarrow> nat \<Rightarrow> ParsedLinkParams
     \<Rightarrow> suggestedQSO" where
  "buildSuggestedQSO bandForFrequency modeForFrequency now p =
     (let qso0 = \<lparr>
            qso_suggestedKey = ''deeplink-'' @ decimal now,
            qso_their = \<lparr>call = None\<rparr>,
            qso_our = \<lparr>call = None\<rparr>,
            qso_freq = None, qso_band = None, qso_mode = None,
            qso_startAtMillis = None, qso_refs = None\<rparr>;
          qso1 = (if truthy_string (theirCall p)
                  then qso0\<lparr>qso_their := \<lparr>call = theirCall p\<rparr>\<rparr> else qso0);
          qso2 = (if truthy_string (myCall p)
                  then qso1\<lparr>qso_our := \<lparr>call = myCall p\<rparr>\<rparr> else qso1);
          qso3 = (if truthy_freq (freq p)
                  then (let q = qso2\<lparr>qso_freq := freq p,
                                      qso_band := bandForFrequency (the (freq p))\<rparr>
                        in if \<not> truthy_string (mode p)
                           then q\<lparr>qso_mode := modeForFrequency (the (freq p))\<rparr> else q)
                  else qso2);
          qso4 = (if truthy_string (mode p) then qso3\<lparr>qso_mode := mode p\<rparr> else qso3);
          qso5 = (if truthy_freq (time p)
                  then qso4\<lparr>qso_startAtMillis := time p\<rparr> else qso4);
          qso6 = (if truthy_string (theirRef p) \<and> truthy_string (theirSig p)
                  then qso5\<lparr>qso_refs :=
                         Some [\<lparr>ref_type = property TYPE_TO_HUNTING (the (theirSig p)),
                                ref_ref = the (theirRef p)\<rparr>]\<rparr>
                  else qso5)
      in qso6)"

text \<open>The two lookups as the test suite mocks them.\<close>

definition mock_bandForFrequency :: "number \<Rightarrow> string option" where
  "mock_bandForFrequency f =
     (case f of
        Num n \<Rightarrow>
          if 14000000 \<le> n \<and> n < 14350000 then Some ''20m''
          else if 7000000 \<le> n \<and> n < 7300000 then Some ''40m''
          else if 21000000 \<le> n \<and> n < 21450000 then Some ''15m''
          else None
      | _ \<Rightarrow> None)"

definition mock_modeForFrequency :: "number \<Rightarrow> string option" where
  "mock_modeForFrequency f =
     (case f of
        Num n \<Rightarrow>
          if 14000000 \<le> n \<and> n < 14100000 then Some ''CW''
          else if 14100000 \<le> n \<and> n < 14350000 then Some ''SSB''
          else if 7000000 \<le> n \<and> n < 7050000 then Some ''CW''
          else if 7050000 \<le> n \<and> n < 7300000 then Some ''SSB''
          else Some ''SSB''
      | _ \<Rightarrow> Some ''SSB'')"

text \<open>A parameter set with every field absent, to build examples from.\<close>

definition no_params :: ParsedLinkParams where
  "no_params = \<lparr>myRef = None, mySig = None, theirRef = None, theirSig = None, freq = None,
     mode = None, time = None, myCall = None, theirCall = None\<rparr>"

text \<open>
  A link that chases one reference, and what the parser returns for it; examples extend
  both.
\<close>

definition chase_url :: string where
  "chase_url = ''com.ham2k.polo://qso?theirRef=T&theirSig=sota''"

definition chase_params :: ParsedLinkParams where
  "chase_params = no_params\<lparr>theirRef := Some ''T'', theirSig := Some ''sota''\<rparr>"

section \<open>Notions of the specification\<close>

text \<open>The closed set of activation codes.\<close>

definition ActivationCodes :: "string list" where
  "ActivationCodes = [''sota'', ''pota'', ''wwff'', ''gma'', ''wca'', ''zlota'']"

text \<open>A pair of reference and code is complete when both are present and not empty.\<close>

definition complete :: "string option \<Rightarrow> string option \<Rightarrow> bool" where
  "complete ref sig = (truthy_string ref \<and> truthy_string sig)"

text \<open>
  A string that begins with an integer: white space characters, one optional sign, and
  then a decimal digit.
\<close>

abbreviation beginsWithInteger :: "string \<Rightarrow> bool" where
  "beginsWithInteger s \<equiv>
     (\<exists>ws sg d rest.
        s = concat ws @ sg @ d # rest \<and> set ws \<subseteq> set StrWhiteSpaceChar
        \<and> (sg = [] \<or> sg = ''+'' \<or> sg = ''-'') \<and> isDigit d)"

text \<open>The same as a function that computes.\<close>

definition startsWithInteger :: "string \<Rightarrow> bool" where
  "startsWithInteger s =
     (case trimStart s of
        [] \<Rightarrow> False
      | c # r \<Rightarrow>
          if c = CHR ''+'' \<or> c = CHR ''-'' then (case r of [] \<Rightarrow> False | d # _ \<Rightarrow> isDigit d)
          else isDigit c)"

text \<open>
  A code that is present, not empty and, in lower case, neither an activation code nor the
  name of a property that every object inherits.
\<close>

definition rejected :: "string option \<Rightarrow> bool" where
  "rejected sig =
     (truthy_string sig \<and> toLowerCase (the sig) \<notin> set ActivationCodes
        \<and> toLowerCase (the sig) \<notin> set Object_prototype_keys)"

text \<open>A pair of which exactly one member is present.\<close>

definition partially_specified :: "string option \<Rightarrow> string option \<Rightarrow> bool" where
  "partially_specified ref sig = ((ref = None) \<noteq> (sig = None))"

text \<open>
  A string that is a decimal integer from its first character to its last: an optional
  sign and then digits only.
\<close>

definition isIntegerString :: "string \<Rightarrow> bool" where
  "isIntegerString s =
     (case s of
        [] \<Rightarrow> False
      | c # r \<Rightarrow>
          if c = CHR ''+'' \<or> c = CHR ''-'' then r \<noteq> [] \<and> list_all isDigit r
          else list_all isDigit s)"

text \<open>
  The query string in the specification's words: everything after the first \<open>?\<close> of the
  part that follows the prefix, further \<open>?\<close> characters included.
\<close>

definition everything_after_first_question_mark :: "string \<Rightarrow> string option" where
  "everything_after_first_question_mark urlPath =
     (if CHR ''?'' \<in> set urlPath
      then Some (tl (dropWhile (\<lambda>c. c \<noteq> CHR ''?'') urlPath))
      else None)"

section \<open>Evaluation\<close>

lemma trimStart_None:
  "find (\<lambda>w. startsWith s w) StrWhiteSpaceChar = None \<Longrightarrow> trimStart s = s"
  by (subst trimStart.simps) simp

lemma trimStart_Some:
  "find (\<lambda>w. startsWith s w) StrWhiteSpaceChar = Some w \<Longrightarrow>
   trimStart s = trimStart (slice s (length w))"
  by (subst trimStart.simps) simp

lemmas model_defs = parseDeepLinkURL_def parseDeepLinkURL_with_def parseDeepLinkURL_try_def
  queryString_def fromParams_def URLSearchParams_def name_value_def plus_to_space_def
  get_def parseFrequency_def parseInt10_def toNumber_def digitsValue_def digitValue_def
  isDigit_def StrWhiteSpaceChar_def trimStart_None trimStart_Some isNaN_def truthy_string_def or_undefined_def startsWith_def
  slice_def element_def toLowerCase_def toUpperCase_def toLowerCase_char_def
  toUpperCase_char_def upper_letters_def lower_letters_def property_def
  Object_prototype_keys_def TYPE_TO_ACTIVATION_def TYPE_TO_HUNTING_def URL_SCHEME_def
  isHexDigit_def hexValue_def byte_of_hex_def utf8_decode_def REPLACEMENT_CHARACTER_def
  urlParam_def ActivationCodes_def complete_def
  startsWithInteger_def isIntegerString_def partially_specified_def no_params_def
  chase_url_def chase_params_def

lemmas build_defs = buildSuggestedQSO_def truthy_freq_def truthy_number_def truthy_string_def
  property_def TYPE_TO_HUNTING_def Object_prototype_keys_def no_params_def
  mock_bandForFrequency_def mock_modeForFrequency_def

section \<open>Examples of the test suite\<close>

text \<open>The model returns what the repository's tests expect of the parser.\<close>

lemma test_chase_only:
  "parseDeepLinkURL
     ''com.ham2k.polo://qso?theirCall=K6TEST&theirRef=W6/CT-006&theirSig=sota&freq=14285000&mode=CW''
   = Inr (Some \<lparr>myRef = None, mySig = None, theirRef = Some ''W6/CT-006'',
       theirSig = Some ''sota'', freq = Some (Num 14285000), mode = Some ''CW'', time = None,
       myCall = None, theirCall = Some ''K6TEST''\<rparr>)"
  by (simp add: model_defs)

lemma test_all_parameters:
  "parseDeepLinkURL
     ''com.ham2k.polo://qso?myRef=K-1234&mySig=pota&theirRef=W6/CT-006&theirSig=sota&freq=14285000&mode=CW&time=1704067200000&myCall=N0CALL&theirCall=K6TEST''
   = Inr (Some \<lparr>myRef = Some ''K-1234'', mySig = Some ''pota'', theirRef = Some ''W6/CT-006'',
       theirSig = Some ''sota'', freq = Some (Num 14285000), mode = Some ''CW'',
       time = Some (Num 1704067200000), myCall = Some ''N0CALL'',
       theirCall = Some ''K6TEST''\<rparr>)"
  by (simp add: model_defs)

lemma test_case_normalization:
  "parseDeepLinkURL ''com.ham2k.polo://qso?theirRef=Test&theirSig=POTA&mode=cw&theirCall=k6test''
   = Inr (Some (no_params\<lparr>theirRef := Some ''Test'', theirSig := Some ''pota'',
       mode := Some ''CW'', theirCall := Some ''K6TEST''\<rparr>))"
  by (simp add: model_defs)

lemma test_invalid:
  "parseDeepLinkURL ''com.ham2k.polo://qso?freq=14285000&mode=CW'' = Inr None"
  "parseDeepLinkURL ''com.ham2k.polo://qso?myRef=TEST&mySig=unknown'' = Inr None"
  "parseDeepLinkURL ''com.ham2k.polo://qso?theirRef=TEST&theirSig=iota'' = Inr None"
  "parseDeepLinkURL ''com.ham2k.polo://qso?mySig=sota'' = Inr None"
  "parseDeepLinkURL ''https://example.com/qso?myRef=TEST&mySig=sota'' = Inr None"
  "parseDeepLinkURL ''com.ham2k.polo://qso'' = Inr None"
  by (simp_all add: model_defs)

lemma test_percent_escapes:
  "URLSearchParams ''theirRef=W6%2FCT-006&theirCall=K6+TEST&x''
   = [(''theirRef'', ''W6/CT-006''), (''theirCall'', ''K6 TEST''), (''x'', [])]"
  by (simp add: model_defs)

text \<open>
  Beyond the tests: an escaped U+00A0 is white space before a number, and a byte that is
  not UTF-8 becomes U+FFFD.
\<close>

lemma decode_utf8_examples:
  "parseDeepLinkURL (chase_url @ ''&freq=%C2%A042'')
     = Inr (Some (chase_params\<lparr>freq := Some (Num 42)\<rparr>))"
  "URLSearchParams ''a=%FFb&c=%E2%82%AC'' =
     [(''a'', [CHR 0xEF, CHR 0xBF, CHR 0xBD, CHR ''b'']),
      (''c'', [CHR 0xE2, CHR 0x82, CHR 0xAC])]"
  by (simp_all add: model_defs)

lemma test_suggestedKey:
  "qso_suggestedKey (buildSuggestedQSO mock_bandForFrequency mock_modeForFrequency
     1704067200000 chase_params) = ''deeplink-1704067200000''"
  by (simp add: buildSuggestedQSO_def Let_def decimal.simps)

section \<open>Reading integers\<close>






lemma isDigit_not_sign: "isDigit c \<Longrightarrow> c \<noteq> CHR ''+'' \<and> c \<noteq> CHR ''-''"
  by (auto simp add: isDigit_def)


subsection \<open>Leading white space\<close>

lemma trimStart_Nil: "trimStart [] = []"
  by (rule trimStart_None) (simp add: find_None_iff startsWith_def StrWhiteSpaceChar_def)

lemma trimStart_keeps:
  assumes "isDigit c \<or> c = CHR ''+'' \<or> c = CHR ''-''"
  shows "trimStart (c # cs) = c # cs"
proof (rule trimStart_None)
  from assms have "\<forall>w \<in> set StrWhiteSpaceChar. \<not> startsWith (c # cs) w"
    by (auto simp add: StrWhiteSpaceChar_def startsWith_def isDigit_def)
  then show "find (\<lambda>w. startsWith (c # cs) w) StrWhiteSpaceChar = None"
    by (simp add: find_None_iff)
qed

lemma trimStart_white_space:
  assumes "w \<in> set StrWhiteSpaceChar"
  shows "trimStart (w @ t) = trimStart t"
proof -
  have "\<forall>w \<in> set StrWhiteSpaceChar.
          find (\<lambda>w'. startsWith (w @ t) w') StrWhiteSpaceChar = Some w"
    unfolding StrWhiteSpaceChar_def list.set ball_simps
    by (simp add: startsWith_def)
  with assms have "find (\<lambda>w'. startsWith (w @ t) w') StrWhiteSpaceChar = Some w"
    by blast
  then have "trimStart (w @ t) = trimStart (slice (w @ t) (length w))"
    by (rule trimStart_Some)
  then show ?thesis
    by (simp add: slice_def)
qed

lemma trimStart_concat:
  "set ws \<subseteq> set StrWhiteSpaceChar \<Longrightarrow> trimStart (concat ws @ t) = trimStart t"
  by (induction ws) (simp_all add: trimStart_white_space)

lemma trimStart_decompose:
  "\<exists>ws. set ws \<subseteq> set StrWhiteSpaceChar \<and> s = concat ws @ trimStart s"
proof (induction s rule: trimStart.induct)
  case (1 s)
  show ?case
  proof (cases "find (\<lambda>w. startsWith s w) StrWhiteSpaceChar")
    case None
    then have "trimStart s = s"
      by (rule trimStart_None)
    then have "set [] \<subseteq> set StrWhiteSpaceChar \<and> s = concat [] @ trimStart s"
      by simp
    then show ?thesis
      by blast
  next
    case (Some w)
    then have w: "w \<in> set StrWhiteSpaceChar" and p: "startsWith s w"
      by (auto simp add: find_Some_iff)
    from p have s: "s = w @ slice s (length w)"
      by (metis append_take_drop_id slice_def startsWith_def)
    from Some have t: "trimStart s = trimStart (slice s (length w))"
      by (rule trimStart_Some)
    from "1.IH" [OF Some] obtain ws where ws: "set ws \<subseteq> set StrWhiteSpaceChar"
      and r: "slice s (length w) = concat ws @ trimStart (slice s (length w))"
      by blast
    from s r t have "s = concat (w # ws) @ trimStart s"
      by simp
    with w ws have "set (w # ws) \<subseteq> set StrWhiteSpaceChar \<and> s = concat (w # ws) @ trimStart s"
      by simp
    then show ?thesis
      by blast
  qed
qed

subsection \<open>What \<^verbatim>\<open>parseInt\<close> returns\<close>

lemma toNumber_not_NaN: "toNumber i \<noteq> NaN"
  by (simp add: toNumber_def)

lemma parseInt10_NaN_iff: "parseInt10 s = NaN \<longleftrightarrow> \<not> startsWithInteger s"
proof (cases "trimStart s")
  case Nil
  show ?thesis
    by (simp add: parseInt10_def startsWithInteger_def Nil)
next
  case (Cons c r)
  have nd: "\<not> isDigit CHR ''+''" "\<not> isDigit CHR ''-''"
    by (simp_all add: isDigit_def)
  show ?thesis
    by (cases r)
      (auto simp add: parseInt10_def startsWithInteger_def Cons Let_def toNumber_not_NaN nd)
qed

lemma startsWithInteger_iff: "startsWithInteger s \<longleftrightarrow> beginsWithInteger s"
proof
  assume a: "startsWithInteger s"
  obtain ws where ws: "set ws \<subseteq> set StrWhiteSpaceChar" and s: "s = concat ws @ trimStart s"
    using trimStart_decompose by blast
  from a obtain c r where t: "trimStart s = c # r"
    by (cases "trimStart s") (simp_all add: startsWithInteger_def)
  show "beginsWithInteger s"
  proof (cases "c = CHR ''+'' \<or> c = CHR ''-''")
    case True
    with a t obtain d rest where r: "r = d # rest" and d: "isDigit d"
      by (cases r) (auto simp add: startsWithInteger_def)
    from s t r have "s = concat ws @ [c] @ d # rest"
      by simp
    with ws True d show ?thesis
      by blast
  next
    case False
    with a t have d: "isDigit c"
      by (simp add: startsWithInteger_def)
    from s t have "s = concat ws @ [] @ c # r"
      by simp
    with ws d show ?thesis
      by blast
  qed
next
  assume "beginsWithInteger s"
  then obtain ws sg d rest where s: "s = concat ws @ sg @ d # rest"
    and ws: "set ws \<subseteq> set StrWhiteSpaceChar"
    and sg: "sg = [] \<or> sg = ''+'' \<or> sg = ''-''" and d: "isDigit d"
    by blast
  from sg d have "trimStart (sg @ d # rest) = sg @ d # rest"
    by (auto simp add: trimStart_keeps)
  with s ws have t: "trimStart s = sg @ d # rest"
    by (simp add: trimStart_concat)
  from sg d show "startsWithInteger s"
    using isDigit_not_sign [OF d] by (auto simp add: startsWithInteger_def t)
qed





section \<open>What the parser accepts and what it returns\<close>

lemma parseDeepLinkURL_unfold:
  "parseDeepLinkURL url =
     (if startsWith url URL_SCHEME \<and> truthy_string (queryString url)
      then Inr (fromParams (URLSearchParams (the (queryString url))))
      else Inr None)"
  by (simp add: parseDeepLinkURL_def parseDeepLinkURL_with_def parseDeepLinkURL_try_def)

lemma urlParam_get:
  "truthy_string (queryString url) \<Longrightarrow>
   get (URLSearchParams (the (queryString url))) name = urlParam url name"
  by (auto simp add: urlParam_def truthy_string_def split: option.splits)

lemma toLowerCase_Nil_iff: "toLowerCase s = [] \<longleftrightarrow> s = []"
  by (simp add: toLowerCase_def)

lemma truthy_lower:
  "truthy_string (or_undefined (map_option toLowerCase x)) = truthy_string x"
  by (cases x) (simp_all add: or_undefined_def truthy_string_def toLowerCase_Nil_iff)

lemma truthy_or_undefined: "truthy_string (or_undefined x) = truthy_string x"
  by (simp add: or_undefined_def truthy_string_def)

lemma lower_sig:
  "truthy_string x \<Longrightarrow> or_undefined (map_option toLowerCase x) = Some (toLowerCase (the x))"
  by (cases x) (simp_all add: or_undefined_def truthy_string_def toLowerCase_Nil_iff)

lemma truthy_registry:
  "truthy (property TYPE_TO_ACTIVATION k) \<longleftrightarrow>
     k \<in> set ActivationCodes \<or> k \<in> set Object_prototype_keys"
  by (simp add: property_def TYPE_TO_ACTIVATION_def ActivationCodes_def)

lemma rejected_iff:
  "(truthy_string (or_undefined (map_option toLowerCase x)) \<and>
     \<not> truthy (property TYPE_TO_ACTIVATION (the (or_undefined (map_option toLowerCase x)))))
   = rejected x"
  by (cases x)
    (simp_all add: rejected_def or_undefined_def truthy_string_def toLowerCase_Nil_iff
      truthy_registry)

lemma truthy_map_lower: "truthy_string (map_option toLowerCase x) = truthy_string x"
  by (cases x) (simp_all add: truthy_string_def toLowerCase_Nil_iff)

lemma complete_iff:
  "(truthy_string (or_undefined r) \<and> truthy_string (or_undefined (map_option toLowerCase s)))
   = complete r s"
  by (simp add: complete_def truthy_or_undefined truthy_map_lower)

lemma fromParams_None_iff:
  "fromParams params = None \<longleftrightarrow>
     (\<not> complete (get params ''myRef'') (get params ''mySig'')
        \<and> \<not> complete (get params ''theirRef'') (get params ''theirSig''))
     \<or> rejected (get params ''mySig'') \<or> rejected (get params ''theirSig'')"
  unfolding fromParams_def Let_def rejected_iff complete_iff
  by simp

lemma fromParams_fields:
  assumes "fromParams params = Some r"
  shows "myRef r = or_undefined (get params ''myRef'')"
    and "mySig r = or_undefined (map_option toLowerCase (get params ''mySig''))"
    and "theirRef r = or_undefined (get params ''theirRef'')"
    and "theirSig r = or_undefined (map_option toLowerCase (get params ''theirSig''))"
    and "freq r = parseFrequency (get params ''freq'')"
    and "mode r = or_undefined (map_option toUpperCase (get params ''mode''))"
    and "time r = (if truthy_string (get params ''time'')
                   then Some (parseInt10 (the (get params ''time''))) else None)"
    and "myCall r = or_undefined (map_option toUpperCase (get params ''myCall''))"
    and "theirCall r = or_undefined (map_option toUpperCase (get params ''theirCall''))"
  using assms by (auto simp add: fromParams_def Let_def split: if_splits)

lemma parse_None_iff:
  "parseDeepLinkURL url = Inr None \<longleftrightarrow>
     \<not> startsWith url URL_SCHEME \<or> \<not> truthy_string (queryString url)
     \<or> (\<not> complete (urlParam url ''myRef'') (urlParam url ''mySig'')
          \<and> \<not> complete (urlParam url ''theirRef'') (urlParam url ''theirSig''))
     \<or> rejected (urlParam url ''mySig'') \<or> rejected (urlParam url ''theirSig'')"
proof (cases "startsWith url URL_SCHEME \<and> truthy_string (queryString url)")
  case True
  then show ?thesis
    by (simp add: parseDeepLinkURL_unfold fromParams_None_iff urlParam_get)
next
  case False
  then show ?thesis
    by (auto simp add: parseDeepLinkURL_unfold)
qed

lemma parse_Some_fromParams:
  "parseDeepLinkURL url = Inr (Some r) \<Longrightarrow>
     startsWith url URL_SCHEME \<and> truthy_string (queryString url)
     \<and> fromParams (URLSearchParams (the (queryString url))) = Some r"
  by (simp add: parseDeepLinkURL_unfold split: if_splits)

lemma parse_fields:
  assumes "parseDeepLinkURL url = Inr (Some r)"
  shows "myRef r = or_undefined (urlParam url ''myRef'')"
    and "mySig r = or_undefined (map_option toLowerCase (urlParam url ''mySig''))"
    and "theirRef r = or_undefined (urlParam url ''theirRef'')"
    and "theirSig r = or_undefined (map_option toLowerCase (urlParam url ''theirSig''))"
    and "freq r = parseFrequency (urlParam url ''freq'')"
    and "mode r = or_undefined (map_option toUpperCase (urlParam url ''mode''))"
    and "time r = (if truthy_string (urlParam url ''time'')
                   then Some (parseInt10 (the (urlParam url ''time''))) else None)"
    and "myCall r = or_undefined (map_option toUpperCase (urlParam url ''myCall''))"
    and "theirCall r = or_undefined (map_option toUpperCase (urlParam url ''theirCall''))"
  using fromParams_fields [of "URLSearchParams (the (queryString url))" r]
    parse_Some_fromParams [OF assms] by (simp_all add: urlParam_get)

lemma parse_never_throws: "parseDeepLinkURL url \<noteq> Inl e"
  by (simp add: parseDeepLinkURL_unfold)

section \<open>The suggestion builder\<close>

text \<open>
  Claim C1, as amended. The builder sets \<open>refs\<close> exactly when \<open>theirRef\<close> and \<open>theirSig\<close> are
  both present and not empty (the test in the source is truthiness, and the empty string is
  falsy). When it does, \<open>refs\<close> is a list of one element: its type is what
  \<open>TYPE_TO_HUNTING\<close> holds for \<open>theirSig\<close>, its ref is \<open>theirRef\<close> unchanged.
\<close>

theorem build_refs:
  "qso_refs (buildSuggestedQSO bandForFrequency modeForFrequency now p) =
     (if truthy_string (theirRef p) \<and> truthy_string (theirSig p)
      then Some [\<lparr>ref_type = property TYPE_TO_HUNTING (the (theirSig p)),
                  ref_ref = the (theirRef p)\<rparr>]
      else None)"
  by (simp add: buildSuggestedQSO_def Let_def)

text \<open>For \<open>pota\<close> the type is the hunting tag \<open>pota\<close>, not \<open>potaActivation\<close>.\<close>

theorem build_refs_witness:
  "qso_refs (buildSuggestedQSO mock_bandForFrequency mock_modeForFrequency 0
     (no_params\<lparr>theirRef := Some ''TEST'', theirSig := Some ''pota''\<rparr>))
   = Some [\<lparr>ref_type = Str ''pota'', ref_ref = ''TEST''\<rparr>]
   \<and> qso_refs (buildSuggestedQSO mock_bandForFrequency mock_modeForFrequency 0
     (no_params\<lparr>theirRef := Some ''TEST''\<rparr>)) = None"
  using build_refs [of mock_bandForFrequency mock_modeForFrequency 0
      "no_params\<lparr>theirRef := Some ''TEST'', theirSig := Some ''pota''\<rparr>"]
    build_refs [of mock_bandForFrequency mock_modeForFrequency 0
      "no_params\<lparr>theirRef := Some ''TEST''\<rparr>"]
  by (simp add: no_params_def truthy_string_def property_def TYPE_TO_HUNTING_def)

text \<open>
  Claim C1 as it is written fails where a member is present and empty: both members are
  present here, and \<open>refs\<close> is not set.
\<close>

theorem build_refs_empty_ref_counterexample:
  "theirRef (no_params\<lparr>theirRef := Some '''', theirSig := Some ''sota''\<rparr>) \<noteq> None \<and>
   theirSig (no_params\<lparr>theirRef := Some '''', theirSig := Some ''sota''\<rparr>) \<noteq> None \<and>
   qso_refs (buildSuggestedQSO mock_bandForFrequency mock_modeForFrequency 0
     (no_params\<lparr>theirRef := Some '''', theirSig := Some ''sota''\<rparr>)) = None"
  by (simp add: build_defs Let_def)

text \<open>
  Claim C5, as amended. When \<open>mode\<close> is present and not empty, the record's mode is the
  input mode, whatever \<open>freq\<close> is and whatever the lookup of the mode would return.
\<close>

theorem build_mode:
  "mode p = Some m \<Longrightarrow> m \<noteq> [] \<Longrightarrow>
   qso_mode (buildSuggestedQSO bandForFrequency modeForFrequency now p) = Some m"
  by (simp add: buildSuggestedQSO_def Let_def truthy_string_def)

theorem build_mode_witness:
  "mode (no_params\<lparr>freq := Some (Num 14285000), mode := Some ''CW''\<rparr>) = Some ''CW''
   \<and> ''CW'' \<noteq> []
   \<and> mock_modeForFrequency (Num 14285000) = Some ''SSB''
   \<and> qso_mode (buildSuggestedQSO mock_bandForFrequency mock_modeForFrequency 0
        (no_params\<lparr>freq := Some (Num 14285000), mode := Some ''CW''\<rparr>)) = Some ''CW''"
  using build_mode [of "no_params\<lparr>freq := Some (Num 14285000), mode := Some ''CW''\<rparr>" "''CW''"
      mock_bandForFrequency mock_modeForFrequency 0]
  by (simp add: no_params_def mock_modeForFrequency_def)

text \<open>
  Claim C5 as it is written fails for a mode that is present and empty: the mode derived
  from the frequency is returned, not the input mode.
\<close>

theorem build_mode_empty_counterexample:
  "mode (no_params\<lparr>freq := Some (Num 14285000), mode := Some ''''\<rparr>) = Some ''''
   \<and> qso_mode (buildSuggestedQSO mock_bandForFrequency mock_modeForFrequency 0
        (no_params\<lparr>freq := Some (Num 14285000), mode := Some ''''\<rparr>)) = Some ''SSB''"
  by (simp add: build_defs Let_def)

text \<open>
  Claim C6, as amended. When \<open>freq\<close> is present and truthy (neither zero nor \<open>NaN\<close>), the
  record's freq is the input freq, its band is the band lookup at that freq, and, when
  \<open>mode\<close> is absent or empty, its mode is the mode lookup at that freq.
\<close>

theorem build_freq:
  "freq p = Some f \<Longrightarrow> truthy_number f \<Longrightarrow>
   qso_freq (buildSuggestedQSO bandForFrequency modeForFrequency now p) = Some f \<and>
   qso_band (buildSuggestedQSO bandForFrequency modeForFrequency now p) = bandForFrequency f \<and>
   (\<not> truthy_string (mode p) \<longrightarrow>
      qso_mode (buildSuggestedQSO bandForFrequency modeForFrequency now p) = modeForFrequency f)"
  by (simp add: buildSuggestedQSO_def Let_def truthy_freq_def)

theorem build_freq_witness:
  "freq (no_params\<lparr>freq := Some (Num 14035000)\<rparr>) = Some (Num 14035000)
   \<and> truthy_number (Num 14035000)
   \<and> \<not> truthy_string (mode (no_params\<lparr>freq := Some (Num 14035000)\<rparr>))
   \<and> qso_freq (buildSuggestedQSO mock_bandForFrequency mock_modeForFrequency 0
        (no_params\<lparr>freq := Some (Num 14035000)\<rparr>)) = Some (Num 14035000)
   \<and> qso_band (buildSuggestedQSO mock_bandForFrequency mock_modeForFrequency 0
        (no_params\<lparr>freq := Some (Num 14035000)\<rparr>)) = Some ''20m''
   \<and> qso_mode (buildSuggestedQSO mock_bandForFrequency mock_modeForFrequency 0
        (no_params\<lparr>freq := Some (Num 14035000)\<rparr>)) = Some ''CW''"
  using build_freq [of "no_params\<lparr>freq := Some (Num 14035000)\<rparr>" "Num 14035000"
      mock_bandForFrequency mock_modeForFrequency 0]
  by (simp add: no_params_def truthy_number_def truthy_string_def mock_bandForFrequency_def
      mock_modeForFrequency_def)

text \<open>
  Claim C6 as it is written fails at the frequency zero, which the parser returns for
  \<open>freq=0\<close>: the field is present in the input and the record has no freq.
\<close>

theorem build_freq_zero_counterexample:
  "parseDeepLinkURL ''com.ham2k.polo://qso?theirRef=T&theirSig=sota&freq=0''
     = Inr (Some (no_params\<lparr>theirRef := Some ''T'', theirSig := Some ''sota'',
                             freq := Some (Num 0)\<rparr>))
   \<and> freq (no_params\<lparr>theirRef := Some ''T'', theirSig := Some ''sota'',
                      freq := Some (Num 0)\<rparr>) = Some (Num 0)
   \<and> qso_freq (buildSuggestedQSO mock_bandForFrequency mock_modeForFrequency 0
        (no_params\<lparr>theirRef := Some ''T'', theirSig := Some ''sota'',
                     freq := Some (Num 0)\<rparr>)) = None"
  by (simp add: model_defs build_defs Let_def)

section \<open>The parser\<close>



subsection \<open>Complete pairs\<close>

lemma complete_result:
  assumes "parseDeepLinkURL url = Inr (Some r)"
  shows "complete (myRef r) (mySig r) = complete (urlParam url ''myRef'') (urlParam url ''mySig'')"
    and "complete (theirRef r) (theirSig r)
           = complete (urlParam url ''theirRef'') (urlParam url ''theirSig'')"
  using parse_fields(1-4) [OF assms] complete_iff
  by (simp_all add: complete_def)

lemma accepted_has_pair:
  assumes "parseDeepLinkURL url = Inr (Some r)"
  shows "complete (urlParam url ''myRef'') (urlParam url ''mySig'')
         \<or> complete (urlParam url ''theirRef'') (urlParam url ''theirSig'')"
proof -
  from assms have "parseDeepLinkURL url \<noteq> Inr None" by simp
  then show ?thesis using parse_None_iff [of url] by blast
qed

lemma no_pair_null:
  assumes "\<not> complete (urlParam url ''myRef'') (urlParam url ''mySig'')"
    and "\<not> complete (urlParam url ''theirRef'') (urlParam url ''theirSig'')"
  shows "parseDeepLinkURL url = Inr None"
  using assms parse_None_iff [of url] by blast

text \<open>
  Claim C2. In every object the parser returns, one pair is complete: \<open>myRef\<close> and \<open>mySig\<close>
  are both present and not empty, or \<open>theirRef\<close> and \<open>theirSig\<close> are. When neither pair of
  the URL is complete, the parser returns \<open>null\<close>.
\<close>

theorem parse_complete_pair:
  "(parseDeepLinkURL url = Inr (Some r) \<longrightarrow>
      complete (myRef r) (mySig r) \<or> complete (theirRef r) (theirSig r))
   \<and> (\<not> complete (urlParam url ''myRef'') (urlParam url ''mySig'')
        \<and> \<not> complete (urlParam url ''theirRef'') (urlParam url ''theirSig'')
      \<longrightarrow> parseDeepLinkURL url = Inr None)"
  using accepted_has_pair [of url r] complete_result [of url r] no_pair_null [of url]
  by blast

theorem parse_complete_pair_witness:
  "parseDeepLinkURL ''com.ham2k.polo://qso?myRef=K-1234&mySig=POTA&theirRef=W6/CT-006''
     = Inr (Some (no_params\<lparr>myRef := Some ''K-1234'', mySig := Some ''pota'',
                             theirRef := Some ''W6/CT-006''\<rparr>))
   \<and> (complete (myRef (no_params\<lparr>myRef := Some ''K-1234'', mySig := Some ''pota'',
                                   theirRef := Some ''W6/CT-006''\<rparr>))
                 (mySig (no_params\<lparr>myRef := Some ''K-1234'', mySig := Some ''pota'',
                                   theirRef := Some ''W6/CT-006''\<rparr>))
        \<or> complete (theirRef (no_params\<lparr>myRef := Some ''K-1234'', mySig := Some ''pota'',
                                        theirRef := Some ''W6/CT-006''\<rparr>))
                    (theirSig (no_params\<lparr>myRef := Some ''K-1234'', mySig := Some ''pota'',
                                        theirRef := Some ''W6/CT-006''\<rparr>)))
   \<and> \<not> complete (urlParam ''com.ham2k.polo://qso?myRef=W6/CT-006&theirSig=sota'' ''myRef'')
                 (urlParam ''com.ham2k.polo://qso?myRef=W6/CT-006&theirSig=sota'' ''mySig'')
   \<and> \<not> complete (urlParam ''com.ham2k.polo://qso?myRef=W6/CT-006&theirSig=sota'' ''theirRef'')
                 (urlParam ''com.ham2k.polo://qso?myRef=W6/CT-006&theirSig=sota'' ''theirSig'')
   \<and> parseDeepLinkURL ''com.ham2k.polo://qso?myRef=W6/CT-006&theirSig=sota'' = Inr None"
proof -
  have a: "parseDeepLinkURL ''com.ham2k.polo://qso?myRef=K-1234&mySig=POTA&theirRef=W6/CT-006''
     = Inr (Some (no_params\<lparr>myRef := Some ''K-1234'', mySig := Some ''pota'',
                             theirRef := Some ''W6/CT-006''\<rparr>))"
    by (simp add: model_defs no_params_def)
  have b: "\<not> complete (urlParam ''com.ham2k.polo://qso?myRef=W6/CT-006&theirSig=sota'' ''myRef'')
                 (urlParam ''com.ham2k.polo://qso?myRef=W6/CT-006&theirSig=sota'' ''mySig'')"
    by (simp add: model_defs)
  have c: "\<not> complete (urlParam ''com.ham2k.polo://qso?myRef=W6/CT-006&theirSig=sota'' ''theirRef'')
                 (urlParam ''com.ham2k.polo://qso?myRef=W6/CT-006&theirSig=sota'' ''theirSig'')"
    by (simp add: model_defs)
  show ?thesis
    using a b c
      parse_complete_pair [of "''com.ham2k.polo://qso?myRef=K-1234&mySig=POTA&theirRef=W6/CT-006''"
        "no_params\<lparr>myRef := Some ''K-1234'', mySig := Some ''pota'',
                     theirRef := Some ''W6/CT-006''\<rparr>"]
      parse_complete_pair [of "''com.ham2k.polo://qso?myRef=W6/CT-006&theirSig=sota''"]
    by blast
qed

subsection \<open>Codes that are not recognised\<close>

lemma rejected_null: "rejected (urlParam url name) \<Longrightarrow> name = ''mySig'' \<or> name = ''theirSig''
  \<Longrightarrow> parseDeepLinkURL url = Inr None"
  using parse_None_iff [of url] by blast

lemma partial_not_complete: "partially_specified ref sig \<Longrightarrow> \<not> complete ref sig"
  by (auto simp add: partially_specified_def complete_def truthy_string_def)

lemma neither_complete_null:
  "\<not> complete (urlParam url ''myRef'') (urlParam url ''mySig'') \<Longrightarrow>
   \<not> complete (urlParam url ''theirRef'') (urlParam url ''theirSig'') \<Longrightarrow>
   parseDeepLinkURL url = Inr None"
  using parse_None_iff [of url] by blast

text \<open>
  Claim C3, as amended. When \<open>mySig\<close> or \<open>theirSig\<close> is present, not empty and, in lower
  case, neither one of the six activation codes nor the name of a property inherited from
  \<^verbatim>\<open>Object.prototype\<close>, the parser returns \<open>null\<close>, whatever the other pair is and whether
  or not the code's own pair is complete.
\<close>

theorem parse_unrecognised_sig:
  assumes "name = ''mySig'' \<or> name = ''theirSig''"
    and "urlParam url name = Some s" and "s \<noteq> []"
    and "toLowerCase s \<notin> set ActivationCodes"
    and "toLowerCase s \<notin> set Object_prototype_keys"
  shows "parseDeepLinkURL url = Inr None"
proof -
  from assms(2-5) have "rejected (urlParam url name)"
    by (simp add: rejected_def truthy_string_def)
  then show ?thesis
    using assms(1) by (rule rejected_null)
qed

theorem parse_unrecognised_sig_witness:
  "urlParam ''com.ham2k.polo://qso?myRef=K-1234&mySig=pota&theirSig=IOTA'' ''theirSig''
     = Some ''IOTA''
   \<and> toLowerCase ''IOTA'' = ''iota''
   \<and> ''iota'' \<notin> set ActivationCodes \<and> ''iota'' \<notin> set Object_prototype_keys
   \<and> complete (urlParam ''com.ham2k.polo://qso?myRef=K-1234&mySig=pota&theirSig=IOTA'' ''myRef'')
               (urlParam ''com.ham2k.polo://qso?myRef=K-1234&mySig=pota&theirSig=IOTA'' ''mySig'')
   \<and> parseDeepLinkURL ''com.ham2k.polo://qso?myRef=K-1234&mySig=pota&theirSig=IOTA'' = Inr None"
proof -
  have a: "urlParam ''com.ham2k.polo://qso?myRef=K-1234&mySig=pota&theirSig=IOTA'' ''theirSig''
     = Some ''IOTA''"
    by (simp add: model_defs)
  have b: "toLowerCase ''IOTA'' = ''iota''"
    by (simp add: model_defs)
  have c: "''iota'' \<notin> set ActivationCodes" "''iota'' \<notin> set Object_prototype_keys"
    by (simp_all add: model_defs)
  have d: "complete
      (urlParam ''com.ham2k.polo://qso?myRef=K-1234&mySig=pota&theirSig=IOTA'' ''myRef'')
      (urlParam ''com.ham2k.polo://qso?myRef=K-1234&mySig=pota&theirSig=IOTA'' ''mySig'')"
    by (simp add: model_defs)
  have "parseDeepLinkURL ''com.ham2k.polo://qso?myRef=K-1234&mySig=pota&theirSig=IOTA'' = Inr None"
    using parse_unrecognised_sig [of "''theirSig''"
        "''com.ham2k.polo://qso?myRef=K-1234&mySig=pota&theirSig=IOTA''" "''IOTA''"] a b c
    by simp
  with a b c d show ?thesis by blast
qed

text \<open>
  Claim C3 as it is written fails for a code that is present and empty: \<^verbatim>\<open>|| undefined\<close>
  makes it absent, so it is not validated, and the link is accepted on its other pair.
\<close>

theorem parse_empty_sig_counterexample:
  "urlParam ''com.ham2k.polo://qso?mySig=&theirRef=T&theirSig=sota'' ''mySig'' = Some ''''
   \<and> toLowerCase '''' \<notin> set ActivationCodes
   \<and> parseDeepLinkURL ''com.ham2k.polo://qso?mySig=&theirRef=T&theirSig=sota''
       = Inr (Some (no_params\<lparr>theirRef := Some ''T'', theirSig := Some ''sota''\<rparr>))"
  by (simp add: model_defs no_params_def)

text \<open>
  The validation reads \<^verbatim>\<open>TYPE_TO_ACTIVATION[mySig]\<close>, which also finds inherited
  properties: the code \<open>constructor\<close> passes it.
\<close>

lemma inherited_name_passes_validation:
  "parseDeepLinkURL ''com.ham2k.polo://qso?myRef=TEST&mySig=constructor''
     = Inr (Some (no_params\<lparr>myRef := Some ''TEST'', mySig := Some ''constructor''\<rparr>))"
  by (simp add: model_defs no_params_def)

subsection \<open>Partially specified pairs\<close>

text \<open>
  Claim C4, as amended. A URL in which one pair is partially specified is rejected when
  its other pair is not complete.
\<close>

theorem parse_partial_pair:
  assumes "partially_specified (urlParam url ''myRef'') (urlParam url ''mySig'')
             \<and> \<not> complete (urlParam url ''theirRef'') (urlParam url ''theirSig'')
           \<or> partially_specified (urlParam url ''theirRef'') (urlParam url ''theirSig'')
             \<and> \<not> complete (urlParam url ''myRef'') (urlParam url ''mySig'')"
  shows "parseDeepLinkURL url = Inr None"
  using assms partial_not_complete neither_complete_null [of url] by blast

theorem parse_partial_pair_witness:
  "partially_specified (urlParam ''com.ham2k.polo://qso?myRef=W6/CT-006'' ''myRef'')
                       (urlParam ''com.ham2k.polo://qso?myRef=W6/CT-006'' ''mySig'')
   \<and> \<not> complete (urlParam ''com.ham2k.polo://qso?myRef=W6/CT-006'' ''theirRef'')
                 (urlParam ''com.ham2k.polo://qso?myRef=W6/CT-006'' ''theirSig'')
   \<and> parseDeepLinkURL ''com.ham2k.polo://qso?myRef=W6/CT-006'' = Inr None"
proof -
  have a: "partially_specified (urlParam ''com.ham2k.polo://qso?myRef=W6/CT-006'' ''myRef'')
                       (urlParam ''com.ham2k.polo://qso?myRef=W6/CT-006'' ''mySig'')"
    by (simp add: model_defs)
  have b: "\<not> complete (urlParam ''com.ham2k.polo://qso?myRef=W6/CT-006'' ''theirRef'')
                 (urlParam ''com.ham2k.polo://qso?myRef=W6/CT-006'' ''theirSig'')"
    by (simp add: model_defs)
  show ?thesis
    using a b parse_partial_pair [of "''com.ham2k.polo://qso?myRef=W6/CT-006''"] by blast
qed

text \<open>
  Claim C4 as it is written fails beside a complete pair: \<open>myRef\<close> comes without \<open>mySig\<close>,
  and the link is accepted, with the lone \<open>myRef\<close> in the result.
\<close>

theorem parse_partial_pair_counterexample:
  "partially_specified (urlParam ''com.ham2k.polo://qso?myRef=X&theirRef=T&theirSig=sota'' ''myRef'')
                       (urlParam ''com.ham2k.polo://qso?myRef=X&theirRef=T&theirSig=sota'' ''mySig'')
   \<and> parseDeepLinkURL ''com.ham2k.polo://qso?myRef=X&theirRef=T&theirSig=sota''
       = Inr (Some (no_params\<lparr>myRef := Some ''X'', theirRef := Some ''T'',
                               theirSig := Some ''sota''\<rparr>))"
  by (simp add: model_defs no_params_def)

subsection \<open>Frequency and time\<close>

lemma acceptance_depends_on_refs:
  assumes "startsWith url URL_SCHEME" and "truthy_string (queryString url)"
    and "startsWith url' URL_SCHEME" and "truthy_string (queryString url')"
    and "\<forall>name \<in> set [''myRef'', ''mySig'', ''theirRef'', ''theirSig''].
           urlParam url' name = urlParam url name"
  shows "parseDeepLinkURL url' = Inr None \<longleftrightarrow> parseDeepLinkURL url = Inr None"
proof -
  from assms(5) have "urlParam url' ''myRef'' = urlParam url ''myRef''"
    "urlParam url' ''mySig'' = urlParam url ''mySig''"
    "urlParam url' ''theirRef'' = urlParam url ''theirRef''"
    "urlParam url' ''theirSig'' = urlParam url ''theirSig''"
    by simp_all
  with assms(1-4) show ?thesis
    by (simp add: parse_None_iff)
qed

lemma freq_field:
  assumes "parseDeepLinkURL url = Inr (Some r)" and "urlParam url ''freq'' = Some s"
  shows "freq r = (if startsWithInteger s then Some (parseInt10 s) else None)"
proof (cases "s = []")
  case True
  with assms show ?thesis
    using parse_fields(5) [OF assms(1)]
    by (simp add: parseFrequency_def truthy_string_def startsWithInteger_def trimStart_Nil)
next
  case False
  with assms show ?thesis
    using parse_fields(5) [OF assms(1)] parseInt10_NaN_iff [of s]
    by (simp add: parseFrequency_def truthy_string_def isNaN_def Let_def)
qed

lemma time_field:
  assumes "parseDeepLinkURL url = Inr (Some r)" and "urlParam url ''time'' = Some s"
  shows "time r = (if s = [] then None else Some (parseInt10 s))"
  using parse_fields(7) [OF assms(1)] assms(2) by (simp add: truthy_string_def)




text \<open>
  Claim C10, as amended. In an accepted URL with a \<open>time\<close> parameter, the field \<open>time\<close> is
  \<open>NaN\<close> exactly when the parameter is not empty and does not begin with white space
  characters, an optional sign and a decimal digit, and it is absent exactly when the
  parameter is empty; the same text in \<open>freq\<close> gives an absent field, never \<open>NaN\<close>. No value
  of \<open>time\<close> makes the parser return \<open>null\<close>.
\<close>

theorem parse_time_NaN:
  "(parseDeepLinkURL url = Inr (Some r) \<and> urlParam url ''time'' = Some s \<longrightarrow>
      (time r = Some NaN \<longleftrightarrow> s \<noteq> [] \<and> \<not> beginsWithInteger s)
      \<and> (time r = None \<longleftrightarrow> s = [])
      \<and> (s \<noteq> [] \<and> \<not> beginsWithInteger s \<and> urlParam url ''freq'' = Some s
          \<longrightarrow> freq r = None))
   \<and> (startsWith url URL_SCHEME \<and> truthy_string (queryString url)
        \<and> startsWith url' URL_SCHEME \<and> truthy_string (queryString url')
        \<and> (\<forall>name \<in> set [''myRef'', ''mySig'', ''theirRef'', ''theirSig''].
              urlParam url' name = urlParam url name)
      \<longrightarrow> (parseDeepLinkURL url' = Inr None \<longleftrightarrow> parseDeepLinkURL url = Inr None))"
proof (intro conjI impI)
  assume a: "parseDeepLinkURL url = Inr (Some r) \<and> urlParam url ''time'' = Some s"
  then have t: "time r = (if s = [] then None else Some (parseInt10 s))"
    using time_field by blast
  then show "(time r = Some NaN) = (s \<noteq> [] \<and> \<not> beginsWithInteger s)"
    using parseInt10_NaN_iff [of s] startsWithInteger_iff [of s] by simp
  from t show "(time r = None) = (s = [])"
    by simp
  assume "s \<noteq> [] \<and> \<not> beginsWithInteger s \<and> urlParam url ''freq'' = Some s"
  with a show "freq r = None"
    using freq_field [of url r s] startsWithInteger_iff [of s] by simp
next
  assume "startsWith url URL_SCHEME \<and> truthy_string (queryString url)
        \<and> startsWith url' URL_SCHEME \<and> truthy_string (queryString url')
        \<and> (\<forall>name \<in> set [''myRef'', ''mySig'', ''theirRef'', ''theirSig''].
              urlParam url' name = urlParam url name)"
  then show "(parseDeepLinkURL url' = Inr None) = (parseDeepLinkURL url = Inr None)"
    using acceptance_depends_on_refs [of url url'] by blast
qed

text \<open>
  Letters give \<open>NaN\<close> in \<open>time\<close> and nothing in \<open>freq\<close>; U+00A0 before the digits is white
  space, and the time is read.
\<close>

theorem parse_time_NaN_witness:
  "parseDeepLinkURL (chase_url @ ''&time=abc&freq=abc'')
     = Inr (Some (chase_params\<lparr>time := Some NaN\<rparr>))
   \<and> urlParam (chase_url @ ''&time=abc&freq=abc'') ''time'' = Some ''abc''
   \<and> urlParam (chase_url @ ''&time=abc&freq=abc'') ''freq'' = Some ''abc''
   \<and> ''abc'' \<noteq> [] \<and> \<not> beginsWithInteger ''abc''
   \<and> time (chase_params\<lparr>time := Some NaN\<rparr>) = Some NaN
   \<and> freq (chase_params\<lparr>time := Some NaN\<rparr>) = None
   \<and> parseDeepLinkURL (chase_url @ ''&time=%C2%A042'')
     = Inr (Some (chase_params\<lparr>time := Some (Num 42)\<rparr>))
   \<and> urlParam (chase_url @ ''&time=%C2%A042'') ''time'' = Some [CHR 0xC2, CHR 0xA0, CHR ''4'', CHR ''2'']
   \<and> beginsWithInteger [CHR 0xC2, CHR 0xA0, CHR ''4'', CHR ''2'']
   \<and> parseDeepLinkURL chase_url \<noteq> Inr None
   \<and> parseDeepLinkURL (chase_url @ ''&time=abc&freq=abc'') \<noteq> Inr None"
proof -
  have a: "parseDeepLinkURL (chase_url @ ''&time=abc&freq=abc'')
     = Inr (Some (chase_params\<lparr>time := Some NaN\<rparr>))"
    by (simp add: model_defs)
  have b: "urlParam (chase_url @ ''&time=abc&freq=abc'') ''time'' = Some ''abc''"
    "urlParam (chase_url @ ''&time=abc&freq=abc'') ''freq'' = Some ''abc''"
    by (simp_all add: model_defs)
  have "\<not> startsWithInteger ''abc''"
    by (simp add: model_defs)
  then have s: "''abc'' \<noteq> []" "\<not> beginsWithInteger ''abc''"
    using startsWithInteger_iff [of "''abc''"] by simp_all
  have c: "time (chase_params\<lparr>time := Some NaN\<rparr>) = Some NaN
    \<and> freq (chase_params\<lparr>time := Some NaN\<rparr>) = None"
    using a b s
      parse_time_NaN [of "chase_url @ ''&time=abc&freq=abc''"
        "chase_params\<lparr>time := Some NaN\<rparr>" "''abc''"]
    by blast
  have a4: "parseDeepLinkURL (chase_url @ ''&time=%C2%A042'')
     = Inr (Some (chase_params\<lparr>time := Some (Num 42)\<rparr>))"
    by (simp add: model_defs)
  have b4: "urlParam (chase_url @ ''&time=%C2%A042'') ''time''
     = Some [CHR 0xC2, CHR 0xA0, CHR ''4'', CHR ''2'']"
    by (simp add: model_defs)
  have n4: "time (chase_params\<lparr>time := Some (Num 42)\<rparr>) \<noteq> Some NaN"
    by (simp add: model_defs)
  have c4: "beginsWithInteger [CHR 0xC2, CHR 0xA0, CHR ''4'', CHR ''2'']"
    using a4 b4 n4
      parse_time_NaN [of "chase_url @ ''&time=%C2%A042''"
        "chase_params\<lparr>time := Some (Num 42)\<rparr>" "[CHR 0xC2, CHR 0xA0, CHR ''4'', CHR ''2'']"]
    by blast
  have a0: "parseDeepLinkURL chase_url \<noteq> Inr None"
    by (simp add: model_defs)
  have h: "startsWith chase_url URL_SCHEME" "truthy_string (queryString chase_url)"
    "startsWith (chase_url @ ''&time=abc&freq=abc'') URL_SCHEME"
    "truthy_string (queryString (chase_url @ ''&time=abc&freq=abc''))"
    "\<forall>name \<in> set [''myRef'', ''mySig'', ''theirRef'', ''theirSig''].
       urlParam (chase_url @ ''&time=abc&freq=abc'') name = urlParam chase_url name"
    by (simp_all add: model_defs)
  have c0: "parseDeepLinkURL (chase_url @ ''&time=abc&freq=abc'') \<noteq> Inr None"
    using a0 h parse_time_NaN [of chase_url _ _ "chase_url @ ''&time=abc&freq=abc''"]
    by blast
  show ?thesis
    using a b s c a4 b4 c4 a0 c0 by blast
qed

text \<open>
  Claim C10 as it is written fails twice: an empty \<open>time\<close> is present and is not an integer
  string, and the field is absent; \<open>12abc\<close> is not an integer string, and the field is \<open>12\<close>.
\<close>

theorem parse_time_counterexample:
  "urlParam (chase_url @ ''&time='') ''time'' = Some ''''
   \<and> \<not> isIntegerString ''''
   \<and> parseDeepLinkURL (chase_url @ ''&time='') = Inr (Some chase_params)
   \<and> time chase_params = None
   \<and> urlParam (chase_url @ ''&time=12abc'') ''time'' = Some ''12abc''
   \<and> \<not> isIntegerString ''12abc''
   \<and> parseDeepLinkURL (chase_url @ ''&time=12abc'')
       = Inr (Some (chase_params\<lparr>time := Some (Num 12)\<rparr>))"
  by (simp add: model_defs)

subsection \<open>The query string\<close>

lemma split_on_unfold:
  "split_on sep s =
     takeWhile (\<lambda>c. c \<noteq> sep) s #
       (case dropWhile (\<lambda>c. c \<noteq> sep) s of [] \<Rightarrow> [] | _ # rest \<Rightarrow> split_on sep rest)"
  by (induction s) (simp_all split: list.split)

lemma element_Cons_1: "element (x # xs) (Suc 0) = (case xs of [] \<Rightarrow> None | y # _ \<Rightarrow> Some y)"
  by (simp add: element_def split: list.split)

lemma second_segment:
  "element (split_on sep s) 1 =
     (if sep \<in> set s
      then Some (takeWhile (\<lambda>c. c \<noteq> sep) (tl (dropWhile (\<lambda>c. c \<noteq> sep) s)))
      else None)"
proof (cases "dropWhile (\<lambda>c. c \<noteq> sep) s")
  case Nil
  then have ns: "sep \<notin> set s"
    by (metis (mono_tags, lifting) dropWhile_eq_Nil_conv)
  show ?thesis
    by (subst split_on_unfold) (simp add: element_Cons_1 Nil ns)
next
  case (Cons a rest)
  then have s: "sep \<in> set s"
    by (metis (mono_tags, lifting) dropWhile_eq_Nil_conv list.distinct(1))
  obtain ss where r: "split_on sep rest = takeWhile (\<lambda>c. c \<noteq> sep) rest # ss"
    using split_on_unfold [of sep rest] by blast
  have "element (split_on sep s) 1 = Some (takeWhile (\<lambda>c. c \<noteq> sep) rest)"
    by (subst split_on_unfold) (simp add: element_Cons_1 Cons r)
  then show ?thesis
    by (simp add: s Cons)
qed

lemma slice_scheme: "slice (URL_SCHEME @ rest) (length URL_SCHEME) = rest"
  by (simp add: slice_def)

lemma startsWith_scheme: "startsWith (URL_SCHEME @ rest) URL_SCHEME"
  by (simp add: startsWith_def)

lemma queryString_scheme:
  "queryString (URL_SCHEME @ rest) =
     (if CHR ''?'' \<in> set rest
      then Some (takeWhile (\<lambda>c. c \<noteq> CHR ''?'') (tl (dropWhile (\<lambda>c. c \<noteq> CHR ''?'') rest)))
      else None)"
  unfolding queryString_def Let_def slice_scheme by (rule second_segment)

lemma queryString_two_marks:
  assumes "CHR ''?'' \<notin> set path" and "CHR ''?'' \<notin> set query"
  shows "queryString (URL_SCHEME @ path @ ''?'' @ query @ ''?'' @ extra) = Some query"
    and "queryString (URL_SCHEME @ path @ ''?'' @ query) = Some query"
proof -
  have d: "\<And>ys. dropWhile (\<lambda>c. c \<noteq> CHR ''?'') (path @ CHR ''?'' # ys) = CHR ''?'' # ys"
    using assms(1) by (induction path) auto
  have t1: "\<And>ys. takeWhile (\<lambda>c. c \<noteq> CHR ''?'') (query @ CHR ''?'' # ys) = query"
    using assms(2) by (induction query) auto
  have t2: "takeWhile (\<lambda>c. c \<noteq> CHR ''?'') query = query"
    using assms(2) by (induction query) auto
  show "queryString (URL_SCHEME @ path @ ''?'' @ query @ ''?'' @ extra) = Some query"
    by (simp add: queryString_scheme d t1)
  show "queryString (URL_SCHEME @ path @ ''?'' @ query) = Some query"
    by (simp add: queryString_scheme d t2)
qed

text \<open>
  Claim C9, as amended. For a URL with the prefix, the query string is the text between
  the first \<open>?\<close> of the remainder and its second \<open>?\<close> (or its end); what follows a second
  \<open>?\<close> is dropped. When the remainder has no \<open>?\<close>, or that text is empty, the parser returns
  \<open>null\<close>.
\<close>

theorem parse_query_segment:
  "queryString (URL_SCHEME @ rest) =
     (if CHR ''?'' \<in> set rest
      then Some (takeWhile (\<lambda>c. c \<noteq> CHR ''?'') (tl (dropWhile (\<lambda>c. c \<noteq> CHR ''?'') rest)))
      else None)
   \<and> (CHR ''?'' \<notin> set rest \<or> queryString (URL_SCHEME @ rest) = Some []
        \<longrightarrow> parseDeepLinkURL (URL_SCHEME @ rest) = Inr None)
   \<and> (CHR ''?'' \<notin> set path \<and> CHR ''?'' \<notin> set query
        \<longrightarrow> parseDeepLinkURL (URL_SCHEME @ path @ ''?'' @ query @ ''?'' @ extra)
            = parseDeepLinkURL (URL_SCHEME @ path @ ''?'' @ query))"
proof (intro conjI impI)
  show "queryString (URL_SCHEME @ rest) =
     (if CHR ''?'' \<in> set rest
      then Some (takeWhile (\<lambda>c. c \<noteq> CHR ''?'') (tl (dropWhile (\<lambda>c. c \<noteq> CHR ''?'') rest)))
      else None)"
    by (rule queryString_scheme)
next
  assume "CHR ''?'' \<notin> set rest \<or> queryString (URL_SCHEME @ rest) = Some []"
  then have "\<not> truthy_string (queryString (URL_SCHEME @ rest))"
    by (auto simp add: queryString_scheme truthy_string_def)
  then show "parseDeepLinkURL (URL_SCHEME @ rest) = Inr None"
    by (simp add: parseDeepLinkURL_unfold)
next
  assume "CHR ''?'' \<notin> set path \<and> CHR ''?'' \<notin> set query"
  then have "queryString (URL_SCHEME @ path @ ''?'' @ query @ ''?'' @ extra) = Some query"
    and "queryString (URL_SCHEME @ path @ ''?'' @ query) = Some query"
    using queryString_two_marks by blast+
  then show "parseDeepLinkURL (URL_SCHEME @ path @ ''?'' @ query @ ''?'' @ extra)
            = parseDeepLinkURL (URL_SCHEME @ path @ ''?'' @ query)"
    by (simp add: parseDeepLinkURL_unfold startsWith_scheme)
qed

theorem parse_query_segment_witness:
  "CHR ''?'' \<notin> set ''qso''
   \<and> parseDeepLinkURL (URL_SCHEME @ ''qso'') = Inr None
   \<and> queryString (URL_SCHEME @ ''qso?'') = Some []
   \<and> parseDeepLinkURL (URL_SCHEME @ ''qso?'') = Inr None
   \<and> CHR ''?'' \<notin> set ''theirRef=T&theirSig=sota''
   \<and> parseDeepLinkURL (URL_SCHEME @ ''qso'' @ ''?'' @ ''theirRef=T&theirSig=sota'' @ ''?'' @ ''x'')
       = parseDeepLinkURL (URL_SCHEME @ ''qso'' @ ''?'' @ ''theirRef=T&theirSig=sota'')"
proof -
  have a: "CHR ''?'' \<notin> set ''qso''" by simp
  have b: "queryString (URL_SCHEME @ ''qso?'') = Some []"
    by (simp add: model_defs)
  have c: "CHR ''?'' \<notin> set ''theirRef=T&theirSig=sota''" by simp
  show ?thesis
    using a b c parse_query_segment [of "''qso''" "''qso''" "''theirRef=T&theirSig=sota''" "''x''"]
      parse_query_segment [of "''qso?''"]
    by blast
qed

text \<open>
  Claim C9 as it is written fails at a second \<open>?\<close>: the query string is not everything
  after the first one. The link below is accepted; on everything after the first \<open>?\<close> the
  code would be \<open>sota?x\<close> and the link rejected.
\<close>

theorem parse_query_second_mark_counterexample:
  "queryString ''com.ham2k.polo://qso?theirRef=T&theirSig=sota?x'' = Some ''theirRef=T&theirSig=sota''
   \<and> everything_after_first_question_mark ''qso?theirRef=T&theirSig=sota?x''
       = Some ''theirRef=T&theirSig=sota?x''
   \<and> parseDeepLinkURL ''com.ham2k.polo://qso?theirRef=T&theirSig=sota?x''
       = Inr (Some (no_params\<lparr>theirRef := Some ''T'', theirSig := Some ''sota''\<rparr>))
   \<and> fromParams (URLSearchParams ''theirRef=T&theirSig=sota?x'') = None"
  by (simp add: model_defs everything_after_first_question_mark_def no_params_def)

end
